theory Spec2Isabelle
  imports Main "HOL-Library.Word"
begin

section \<open>JavaScript strings\<close>

text \<open>
  A JavaScript string is a sequence of UTF-16 code units; \<open>length\<close> counts code units.
  String literals of the source are ASCII and are written through \<open>str\<close>.
\<close>

type_synonym jsstring = "16 word list"

definition cu :: "char \<Rightarrow> 16 word" where
  "cu c = of_char c"

definition str :: "string \<Rightarrow> jsstring" where
  "str s = map cu s"

text \<open>ToBoolean on \<open>string | null | undefined\<close>: only a non-empty string is truthy.\<close>

fun truthy :: "jsstring option \<Rightarrow> bool" where
  "truthy None = False"
| "truthy (Some s) = (s \<noteq> [])"

text \<open>\<open>a || b\<close> on \<open>string | null | undefined\<close>.\<close>

definition or_else :: "jsstring option \<Rightarrow> jsstring option \<Rightarrow> jsstring option" where
  "or_else a b = (if truthy a then a else b)"

section \<open>Values\<close>

text \<open>
  A value as \<open>JSON.parse\<close> gives it. A number is kept as its lexeme. An object is the list
  of its members; an array has its elements and, beside them, the members written to it
  afterwards (\<open>JSON.parse\<close> gives none).
\<close>

datatype json =
    JNull
  | JBool bool
  | JNum jsstring
  | JStr jsstring
  | JArr "json list" "(jsstring \<times> json) list"
  | JObj "(jsstring \<times> json) list"

section \<open>Builtins of the language that the module calls\<close>

definition is_digit :: "16 word \<Rightarrow> bool" where
  "is_digit c = (cu CHR ''0'' \<le> c \<and> c \<le> cu CHR ''9'')"

text \<open>
  White space and line terminators of ECMAScript: what \<open>\s\<close> matches and what
  \<open>trim\<close> removes.
\<close>

definition js_space :: "16 word \<Rightarrow> bool" where
  "js_space c =
     (c \<in> set [0x09, 0x0A, 0x0B, 0x0C, 0x0D, 0x20, 0xA0, 0x1680, 0x2028, 0x2029,
                0x202F, 0x205F, 0x3000, 0xFEFF]
      \<or> (0x2000 \<le> c \<and> c \<le> 0x200A))"

definition trim :: "jsstring \<Rightarrow> jsstring" where
  "trim s = rev (dropWhile js_space (rev (dropWhile js_space s)))"

text \<open>\<open>s.split(sep)\<close> for a separator of one code unit.\<close>

fun split_on :: "16 word \<Rightarrow> jsstring \<Rightarrow> jsstring list" where
  "split_on sep [] = [[]]"
| "split_on sep (c # cs) =
     (if c = sep then [] # split_on sep cs
      else (case split_on sep cs of
              [] \<Rightarrow> [[c]]
            | l # ls \<Rightarrow> (c # l) # ls))"

text \<open>
  \<open>s.replace(/pat/g, '')\<close> for a pattern that is a literal string: every match, found
  from the left and not overlapping, is removed.
\<close>

fun remove_all :: "jsstring \<Rightarrow> jsstring \<Rightarrow> jsstring" where
  "remove_all pat [] = []"
| "remove_all pat (c # cs) =
     (if pat \<noteq> [] \<and> take (length pat) (c # cs) = pat
      then remove_all pat (drop (length pat - 1) cs)
      else c # remove_all pat cs)"

text \<open>
  \<open>l.replace(/^\d+[\.\)]\s*/, '')\<close>: a run of digits at the start, then a full stop or
  a closing parenthesis, then all white space that follows, is removed; a line that does
  not start so is unchanged.
\<close>

definition strip_numbering :: "jsstring \<Rightarrow> jsstring" where
  "strip_numbering l =
     (if takeWhile is_digit l = [] then l
      else (case dropWhile is_digit l of
              [] \<Rightarrow> l
            | c # r \<Rightarrow>
                if c = cu CHR ''.'' \<or> c = cu CHR '')'' then dropWhile js_space r else l))"

text \<open>\<open>xs.join(sep)\<close>.\<close>

fun join :: "jsstring \<Rightarrow> jsstring list \<Rightarrow> jsstring" where
  "join sep [] = []"
| "join sep [x] = x"
| "join sep (x # y # ys) = x @ sep @ join sep (y # ys)"

subsection \<open>\<open>JSON.parse\<close>\<close>

text \<open>
  The JSON grammar of ECMA-404, as \<open>JSON.parse\<close> reads it: a lexer that walks the text
  one code unit at a time, and a parser that walks the tokens with a stack of the open
  arrays and objects. \<open>None\<close> is the SyntaxError. A number is kept as its lexeme.
\<close>

datatype token =
    TLBrace | TRBrace | TLBrack | TRBrack | TColon | TComma
  | TScalar json

datatype lmode =
    LTop
  | LWord jsstring
  | LStr jsstring
  | LEsc jsstring
  | LUni jsstring "16 word list"

definition json_ws :: "16 word \<Rightarrow> bool" where
  "json_ws c = (c \<in> set [0x09, 0x0A, 0x0D, 0x20])"

definition punct :: "16 word \<Rightarrow> token option" where
  "punct c =
     (if c = cu CHR ''{'' then Some TLBrace
      else if c = cu CHR ''}'' then Some TRBrace
      else if c = cu CHR ''['' then Some TLBrack
      else if c = cu CHR '']'' then Some TRBrack
      else if c = cu CHR '':'' then Some TColon
      else if c = cu CHR '','' then Some TComma
      else None)"

text \<open>The code units a number or one of \<open>true\<close>, \<open>false\<close>, \<open>null\<close> is made of.\<close>

definition word_char :: "16 word \<Rightarrow> bool" where
  "word_char c =
     (is_digit c \<or> c = cu CHR ''-'' \<or> c = cu CHR ''+'' \<or> c = cu CHR ''.''
      \<or> c = cu CHR ''E'' \<or> (cu CHR ''a'' \<le> c \<and> c \<le> cu CHR ''z''))"

definition exponent_ok :: "jsstring \<Rightarrow> bool" where
  "exponent_ok r =
     (case r of
        [] \<Rightarrow> True
      | c # r' \<Rightarrow>
          (c = cu CHR ''e'' \<or> c = cu CHR ''E'') \<and>
          (let ds = (case r' of
                       [] \<Rightarrow> []
                     | s # t \<Rightarrow> if s = cu CHR ''+'' \<or> s = cu CHR ''-'' then t else r')
           in ds \<noteq> [] \<and> list_all is_digit ds))"

definition fraction_ok :: "jsstring \<Rightarrow> bool" where
  "fraction_ok r =
     (case r of
        [] \<Rightarrow> True
      | c # r' \<Rightarrow>
          if c = cu CHR ''.''
          then takeWhile is_digit r' \<noteq> [] \<and> exponent_ok (dropWhile is_digit r')
          else exponent_ok r)"

definition is_number :: "jsstring \<Rightarrow> bool" where
  "is_number w =
     (let u = (case w of [] \<Rightarrow> [] | c # r \<Rightarrow> if c = cu CHR ''-'' then r else w);
          ds = takeWhile is_digit u
      in ds \<noteq> [] \<and> (hd ds \<noteq> cu CHR ''0'' \<or> length ds = 1)
         \<and> fraction_ok (dropWhile is_digit u))"

definition word_token :: "jsstring \<Rightarrow> token option" where
  "word_token w =
     (if w = str ''true'' then Some (TScalar (JBool True))
      else if w = str ''false'' then Some (TScalar (JBool False))
      else if w = str ''null'' then Some (TScalar JNull)
      else if is_number w then Some (TScalar (JNum w))
      else None)"

definition hex_value :: "16 word \<Rightarrow> 16 word option" where
  "hex_value c =
     (if is_digit c then Some (c - cu CHR ''0'')
      else if cu CHR ''a'' \<le> c \<and> c \<le> cu CHR ''f'' then Some (c - cu CHR ''a'' + 10)
      else if cu CHR ''A'' \<le> c \<and> c \<le> cu CHR ''F'' then Some (c - cu CHR ''A'' + 10)
      else None)"

definition escape :: "16 word \<Rightarrow> 16 word option" where
  "escape c =
     (if c = cu CHR 0x22 \<or> c = cu CHR 0x5C \<or> c = cu CHR ''/'' then Some c
      else if c = cu CHR ''b'' then Some 0x08
      else if c = cu CHR ''f'' then Some 0x0C
      else if c = cu CHR ''n'' then Some 0x0A
      else if c = cu CHR ''r'' then Some 0x0D
      else if c = cu CHR ''t'' then Some 0x09
      else None)"

definition ltop :: "16 word \<Rightarrow> (token list \<times> lmode) option" where
  "ltop c =
     (if json_ws c then Some ([], LTop)
      else if c = cu CHR 0x22 then Some ([], LStr [])
      else (case punct c of
              Some t \<Rightarrow> Some ([t], LTop)
            | None \<Rightarrow> if word_char c then Some ([], LWord [c]) else None))"

fun lstep :: "lmode \<Rightarrow> 16 word \<Rightarrow> (token list \<times> lmode) option" where
  "lstep LTop c = ltop c"
| "lstep (LWord w) c =
     (if word_char c then Some ([], LWord (w @ [c]))
      else (case word_token w of
              None \<Rightarrow> None
            | Some t \<Rightarrow>
                (case ltop c of
                   None \<Rightarrow> None
                 | Some (ts, m) \<Rightarrow> Some (t # ts, m))))"
| "lstep (LStr acc) c =
     (if c = cu CHR 0x22 then Some ([TScalar (JStr acc)], LTop)
      else if c = cu CHR 0x5C then Some ([], LEsc acc)
      else if c < 0x20 then None
      else Some ([], LStr (acc @ [c])))"
| "lstep (LEsc acc) c =
     (if c = cu CHR ''u'' then Some ([], LUni acc [])
      else (case escape c of
              None \<Rightarrow> None
            | Some e \<Rightarrow> Some ([], LStr (acc @ [e]))))"
| "lstep (LUni acc hs) c =
     (case hex_value c of
        None \<Rightarrow> None
      | Some h \<Rightarrow>
          if length hs = 3
          then Some ([], LStr (acc @ [foldl (\<lambda>a d. 16 * a + d) 0 (hs @ [h])]))
          else Some ([], LUni acc (hs @ [h])))"

fun lex :: "lmode \<Rightarrow> jsstring \<Rightarrow> token list option" where
  "lex m [] =
     (case m of
        LTop \<Rightarrow> Some []
      | LWord w \<Rightarrow> map_option (\<lambda>t. [t]) (word_token w)
      | _ \<Rightarrow> None)"
| "lex m (c # cs) =
     (case lstep m c of
        None \<Rightarrow> None
      | Some (ts, m') \<Rightarrow> map_option ((@) ts) (lex m' cs))"

text \<open>
  An object keeps its members in the order they were first written; writing a key that
  is there replaces its value (the last duplicate of a JSON text wins).
\<close>

fun set_member :: "jsstring \<Rightarrow> json \<Rightarrow> (jsstring \<times> json) list \<Rightarrow> (jsstring \<times> json) list" where
  "set_member k v [] = [(k, v)]"
| "set_member k v ((k', v') # ms) =
     (if k' = k then (k, v) # ms else (k', v') # set_member k v ms)"

datatype frame =
    FArr "json list"
  | FObj "(jsstring \<times> json) list"
  | FKey "(jsstring \<times> json) list" jsstring

datatype expect =
    Value
  | ValueOrClose
  | KeyOrClose
  | Key
  | Colon
  | CommaOrClose
  | End json

text \<open>A value is complete: it goes into the innermost open array or object.\<close>

fun reduce :: "json \<Rightarrow> frame list \<Rightarrow> (expect \<times> frame list) option" where
  "reduce v [] = Some (End v, [])"
| "reduce v (FArr es # st) = Some (CommaOrClose, FArr (es @ [v]) # st)"
| "reduce v (FKey ms k # st) = Some (CommaOrClose, FObj (set_member k v ms) # st)"
| "reduce v (FObj ms # st) = None"

fun pvalue :: "frame list \<Rightarrow> token \<Rightarrow> (expect \<times> frame list) option" where
  "pvalue st (TScalar v) = reduce v st"
| "pvalue st TLBrack = Some (ValueOrClose, FArr [] # st)"
| "pvalue st TLBrace = Some (KeyOrClose, FObj [] # st)"
| "pvalue st _ = None"

fun pkey :: "frame list \<Rightarrow> token \<Rightarrow> (expect \<times> frame list) option" where
  "pkey (FObj ms # st) (TScalar (JStr k)) = Some (Colon, FKey ms k # st)"
| "pkey st t = None"

fun pclose :: "frame list \<Rightarrow> token \<Rightarrow> (expect \<times> frame list) option" where
  "pclose (FArr es # st) TRBrack = reduce (JArr es []) st"
| "pclose (FObj ms # st) TRBrace = reduce (JObj ms) st"
| "pclose st t = None"

fun pstep :: "expect \<times> frame list \<Rightarrow> token \<Rightarrow> (expect \<times> frame list) option" where
  "pstep (Value, st) t = pvalue st t"
| "pstep (ValueOrClose, st) t = (if t = TRBrack then pclose st t else pvalue st t)"
| "pstep (KeyOrClose, st) t = (if t = TRBrace then pclose st t else pkey st t)"
| "pstep (Key, st) t = pkey st t"
| "pstep (Colon, st) t = (if t = TColon then Some (Value, st) else None)"
| "pstep (CommaOrClose, st) t =
     (if t = TComma
      then (case st of
              FArr es # st' \<Rightarrow> Some (Value, st)
            | FObj ms # st' \<Rightarrow> Some (Key, st)
            | _ \<Rightarrow> None)
      else pclose st t)"
| "pstep (End v, st) t = None"

fun parse_tokens :: "expect \<times> frame list \<Rightarrow> token list \<Rightarrow> json option" where
  "parse_tokens (e, st) [] = (case e of End v \<Rightarrow> Some v | _ \<Rightarrow> None)"
| "parse_tokens s (t # ts) =
     (case pstep s t of
        None \<Rightarrow> None
      | Some s' \<Rightarrow> parse_tokens s' ts)"

definition JSON_parse :: "jsstring \<Rightarrow> json option" where
  "JSON_parse s =
     (case lex LTop s of
        None \<Rightarrow> None
      | Some ts \<Rightarrow> parse_tokens (Value, []) ts)"

section \<open>The generative service and the module state\<close>

text \<open>
  A prompt of the source is a template literal. The model keeps the name of the template
  and the values interpolated into it, in order; the fixed text around them is not
  inspected by any function of the module.
\<close>

datatype template =
    DailyHeadlineText
  | DailyHeadlineImage
  | MentorChat
  | VintageMap
  | LocationTrivia
  | PhotoStreet
  | PhotoLandmark
  | AlternateHistory
  | AlternateHistoryImage

datatype prompt = Plain jsstring | Template template "json option list"

datatype schema =
    SString
  | SArray schema
  | SObject "(jsstring \<times> schema) list" "jsstring list"

datatype config =
    NoConfig
  | ImageConfig jsstring
  | ResponseSchema schema
  | Tools_googleMaps

record request =
  model :: jsstring
  contents :: prompt
  config :: config

record blob =
  data :: "jsstring option"

record part =
  inlineData :: "blob option"

record response =
  resp_text :: "jsstring option"
  candidate_parts :: "part list option"

datatype outcome = Rejected | Resolved response

record client =
  apiKey :: jsstring

text \<open>
  The world the module runs in: \<open>process.env.API_KEY\<close>, the module variable
  \<open>manualApiKey\<close> (\<open>None\<close> is \<open>null\<close>), the service (what the n-th network call answers
  to the credential and request it carries), the calls issued so far, and which of two
  requests in flight together settles first.
\<close>

record world =
  env_API_KEY :: "jsstring option"
  manualApiKey :: "jsstring option"
  service :: "nat \<Rightarrow> jsstring \<times> request \<Rightarrow> outcome"
  sent :: "(jsstring \<times> request) list"
  second_settles_first :: bool

definition setManualApiKey :: "jsstring \<Rightarrow> world \<Rightarrow> world" where
  "setManualApiKey key w = w\<lparr>manualApiKey := Some key\<rparr>"

definition hasGlobalApiKey :: "world \<Rightarrow> bool" where
  "hasGlobalApiKey w = truthy (or_else (env_API_KEY w) (manualApiKey w))"

definition getClient :: "world \<Rightarrow> client option" where
  "getClient w =
     (let apiKey = or_else (manualApiKey w) (env_API_KEY w)
      in if \<not> truthy apiKey then None else Some \<lparr>apiKey = the apiKey\<rparr>)"

text \<open>\<open>ai.models.generateContent\<close>: one network call, recorded in \<open>sent\<close>.\<close>

definition generateContent :: "client \<Rightarrow> request \<Rightarrow> world \<Rightarrow> outcome \<times> world" where
  "generateContent ai req w =
     (service w (length (sent w)) (apiKey ai, req),
      w\<lparr>sent := sent w @ [(apiKey ai, req)]\<rparr>)"

section \<open>Property access on parsed values\<close>

text \<open>
  The module is an ES module, so it runs in strict mode: reading a property of \<open>null\<close>
  or \<open>undefined\<close> and writing a property of a primitive value both throw a TypeError.
  \<open>None\<close> as a value is \<open>undefined\<close>. The property names the module uses
  (\<open>headline\<close>, \<open>finalHeadline\<close>, \<open>timelineSteps\<close>, \<open>imageUrl\<close>) are neither inherited
  nor array indices.
\<close>

datatype exn = TypeError

fun get_prop :: "jsstring \<Rightarrow> json \<Rightarrow> exn + json option" where
  "get_prop k JNull = Inl TypeError"
| "get_prop k (JObj ms) = Inr (map_of ms k)"
| "get_prop k (JArr es ps) = Inr (map_of ps k)"
| "get_prop k v = Inr None"

text \<open>\<open>x[2]\<close>.\<close>

fun elem2 :: "json option \<Rightarrow> exn + json option" where
  "elem2 None = Inl TypeError"
| "elem2 (Some JNull) = Inl TypeError"
| "elem2 (Some (JArr es ps)) = Inr (if 2 < length es then Some (es ! 2) else None)"
| "elem2 (Some (JStr s)) = Inr (if 2 < length s then Some (JStr [s ! 2]) else None)"
| "elem2 (Some (JObj ms)) = Inr (map_of ms (str ''2''))"
| "elem2 (Some v) = Inr None"

fun set_prop :: "jsstring \<Rightarrow> json \<Rightarrow> json \<Rightarrow> exn + json" where
  "set_prop k v (JObj ms) = Inr (JObj (set_member k v ms))"
| "set_prop k v (JArr es ps) = Inr (JArr es (set_member k v ps))"
| "set_prop k v target = Inl TypeError"

text \<open>
  Interpolating a value into a template literal converts it to a string. That throws a
  TypeError for an object that has a member \<open>toString\<close> of its own (no JSON value is
  callable, and the inherited \<open>valueOf\<close> returns the object), also when the object is
  reached through the elements of an array.
\<close>

fun stringable :: "json \<Rightarrow> bool" where
  "stringable (JObj ms) = (map_of ms (str ''toString'') = None)"
| "stringable (JArr es ps) = (map_of ps (str ''toString'') = None \<and> list_all stringable es)"
| "stringable v = True"

definition interpolate :: "json option \<Rightarrow> exn + json option" where
  "interpolate v =
     (case v of
        None \<Rightarrow> Inr None
      | Some x \<Rightarrow> if stringable x then Inr v else Inl TypeError)"

section \<open>The service module\<close>

definition flash :: jsstring where
  "flash = str ''gemini-2.5-flash''"

definition flash_image :: jsstring where
  "flash_image = str ''gemini-2.5-flash-image''"

subsection \<open>Connection test\<close>

definition ping_request :: request where
  "ping_request = \<lparr>model = flash, contents = Plain (str ''ping''), config = NoConfig\<rparr>"

definition testApiKey :: "world \<Rightarrow> bool \<times> world" where
  "testApiKey w =
     (case getClient w of
        None \<Rightarrow> (False, w)
      | Some ai \<Rightarrow>
          (case generateContent ai ping_request w of
             (Rejected, w') \<Rightarrow> (False, w')
           | (Resolved r, w') \<Rightarrow> (True, w')))"

subsection \<open>Images\<close>

text \<open>
  The loop over the parts of the first candidate: the first inline payload wins. Every
  caller in the module passes the aspect ratio, so the default \<open>1:1\<close> of the parameter
  does not show.
\<close>

fun first_inline :: "part list \<Rightarrow> jsstring option" where
  "first_inline [] = None"
| "first_inline (p # ps) =
     (case inlineData p of
        Some b \<Rightarrow>
          Some (str ''data:image/png;base64,''
                @ (case data b of None \<Rightarrow> str ''undefined'' | Some d \<Rightarrow> d))
      | None \<Rightarrow> first_inline ps)"

definition image_request :: "prompt \<Rightarrow> jsstring \<Rightarrow> request" where
  "image_request prompt aspectRatio =
     \<lparr>model = flash_image, contents = prompt, config = ImageConfig aspectRatio\<rparr>"

definition generateImage :: "prompt \<Rightarrow> jsstring \<Rightarrow> world \<Rightarrow> jsstring option \<times> world" where
  "generateImage prompt aspectRatio w =
     (case getClient w of
        None \<Rightarrow> (None, w)
      | Some ai \<Rightarrow>
          (case generateContent ai (image_request prompt aspectRatio) w of
             (Rejected, w') \<Rightarrow> (None, w')
           | (Resolved r, w') \<Rightarrow>
               (case candidate_parts r of
                  None \<Rightarrow> (None, w')
                | Some ps \<Rightarrow> (first_inline ps, w'))))"

definition generateVintageMap :: "jsstring \<Rightarrow> world \<Rightarrow> jsstring option \<times> world" where
  "generateVintageMap location w =
     generateImage (Template VintageMap [Some (JStr location)]) (str ''1:1'') w"

subsection \<open>Daily headline\<close>

definition fallbackImage :: jsstring where
  "fallbackImage =
     str ''https://upload.wikimedia.org/wikipedia/commons/thumb/d/d1/Gandhi_spinning.jpg/640px-Gandhi_spinning.jpg''"

definition headline_schema :: schema where
  "headline_schema =
     SObject [(str ''headline'', SString), (str ''date'', SString),
              (str ''content'', SString), (str ''weather'', SString)]
             [str ''headline'', str ''date'', str ''content'', str ''weather'']"

definition headline_request :: request where
  "headline_request =
     \<lparr>model = flash, contents = Template DailyHeadlineText [],
      config = ResponseSchema headline_schema\<rparr>"

text \<open>
  The inner \<open>try\<close> of \<open>generateDailyHeadline\<close>: the image prompt is built from the
  headline, the image is requested, and the article gets its \<open>imageUrl\<close>. \<open>Inl\<close> is an
  exception that reaches the inner \<open>catch\<close>, with the world as it is then.
\<close>

definition headline_image :: "json \<Rightarrow> world \<Rightarrow> (exn + json) \<times> world" where
  "headline_image article w =
     (case get_prop (str ''headline'') article of
        Inl e \<Rightarrow> (Inl e, w)
      | Inr h \<Rightarrow>
          (case interpolate h of
             Inl e \<Rightarrow> (Inl e, w)
           | Inr a \<Rightarrow>
               (case generateImage (Template DailyHeadlineImage [a]) (str ''4:3'') w of
                  (generatedUrl, w') \<Rightarrow>
                    (set_prop (str ''imageUrl'')
                       (JStr (the (or_else generatedUrl (Some fallbackImage)))) article,
                     w'))))"

text \<open>The result \<open>JNull\<close> is the \<open>null\<close> of the source.\<close>

definition generateDailyHeadline :: "world \<Rightarrow> json \<times> world" where
  "generateDailyHeadline w =
     (case getClient w of
        None \<Rightarrow> (JNull, w)
      | Some ai \<Rightarrow>
          (case generateContent ai headline_request w of
             (Rejected, w1) \<Rightarrow> (JNull, w1)
           | (Resolved textResponse, w1) \<Rightarrow>
               if \<not> truthy (resp_text textResponse) then (JNull, w1)
               else (case JSON_parse (the (resp_text textResponse)) of
                       None \<Rightarrow> (JNull, w1)
                     | Some article \<Rightarrow>
                         (case headline_image article w1 of
                            (Inr article', w2) \<Rightarrow> (article', w2)
                          | (Inl imgError, w2) \<Rightarrow>
                              (case set_prop (str ''imageUrl'') (JStr fallbackImage) article of
                                 Inr article' \<Rightarrow> (article', w2)
                               | Inl error \<Rightarrow> (JNull, w2))))))"

subsection \<open>Mentor chat\<close>

datatype sender = User | AI

record ChatMessage =
  id' :: jsstring
  sender :: sender
  text' :: jsstring
  timestamp :: int

definition no_key_reply :: jsstring where
  "no_key_reply =
     str ''The chronometer is out of sync. Please configure your Telegraph Key (API Key) to communicate across time.''"

definition smudged_reply :: jsstring where
  "smudged_reply = str ''The ink is smudged... I cannot hear you clearly.''"

definition mentor_request ::
  "jsstring \<Rightarrow> jsstring \<Rightarrow> ChatMessage list \<Rightarrow> jsstring \<Rightarrow> request" where
  "mentor_request mentorName mentorEra history newMessage =
     (let conversation =
            join [0x0A]
              (map (\<lambda>h. (if sender h = User then str ''Student'' else mentorName)
                          @ str '': '' @ text' h) history);
          prompt = Template MentorChat
                     [Some (JStr mentorName), Some (JStr mentorEra),
                      Some (JStr conversation), Some (JStr newMessage),
                      Some (JStr mentorName)]
      in \<lparr>model = flash, contents = prompt, config = NoConfig\<rparr>)"

definition chatWithMentor ::
  "jsstring \<Rightarrow> jsstring \<Rightarrow> ChatMessage list \<Rightarrow> jsstring \<Rightarrow> world \<Rightarrow> jsstring \<times> world" where
  "chatWithMentor mentorName mentorEra history newMessage w =
     (case getClient w of
        None \<Rightarrow> (no_key_reply, w)
      | Some ai \<Rightarrow>
          (case generateContent ai (mentor_request mentorName mentorEra history newMessage) w of
             (Rejected, w') \<Rightarrow> (smudged_reply, w')
           | (Resolved r, w') \<Rightarrow>
               (the (or_else (resp_text r) (Some (str ''...''))), w')))"

subsection \<open>Chronoscope: trivia and photographs\<close>

definition signal_lost :: jsstring where
  "signal_lost = str ''Telegraph signal lost. Please check API Key configuration.''"

definition records_fragmented :: "jsstring \<Rightarrow> jsstring" where
  "records_fragmented location =
     str ''Historical records for '' @ location @ str '' are currently fragmented.''"

definition trivia_request :: "jsstring \<Rightarrow> request" where
  "trivia_request location =
     \<lparr>model = flash, contents = Template LocationTrivia [Some (JStr location)],
      config = Tools_googleMaps\<rparr>"

definition generateLocationTrivia :: "jsstring \<Rightarrow> world \<Rightarrow> jsstring list \<times> world" where
  "generateLocationTrivia location w =
     (case getClient w of
        None \<Rightarrow> ([signal_lost], w)
      | Some ai \<Rightarrow>
          (case generateContent ai (trivia_request location) w of
             (Rejected, w') \<Rightarrow> ([records_fragmented location], w')
           | (Resolved r, w') \<Rightarrow>
               if truthy (resp_text r)
               then (let lines = take 3 (filter (\<lambda>line. length line > 10)
                                           (split_on 0x0A (the (resp_text r))))
                     in (map strip_numbering lines, w'))
               else ([records_fragmented location], w')))"

text \<open>
  The two image requests are started one after the other and are in flight together;
  each pushes its image when it settles, so the images come in the order of settling.
\<close>

definition street_prompt :: "jsstring \<Rightarrow> prompt" where
  "street_prompt location = Template PhotoStreet [Some (JStr location)]"

definition landmark_prompt :: "jsstring \<Rightarrow> prompt" where
  "landmark_prompt location = Template PhotoLandmark [Some (JStr location)]"

definition generateHistoricalPhotos :: "jsstring \<Rightarrow> world \<Rightarrow> jsstring list \<times> world" where
  "generateHistoricalPhotos location w =
     (case generateImage (street_prompt location) (str ''4:3'') w of
        (url1, w1) \<Rightarrow>
          (case generateImage (landmark_prompt location) (str ''4:3'') w1 of
             (url2, w2) \<Rightarrow>
               (let push1 = (case url1 of None \<Rightarrow> [] | Some u \<Rightarrow> [u]);
                    push2 = (case url2 of None \<Rightarrow> [] | Some u \<Rightarrow> [u])
                in (if second_settles_first w then push2 @ push1 else push1 @ push2, w2))))"

subsection \<open>Alternate history\<close>

definition fallback :: json where
  "fallback =
     JObj [(str ''timelineSteps'',
            JArr [JStr (str ''The Time Stream is unresponsive.''),
                  JStr (str ''Please ensure the Chrono-Key (API Key) is inserted.''),
                  JStr (str ''Simulation aborted.'')] []),
           (str ''finalHeadline'', JStr (str ''CONNECTION FAILED''))]"

definition history_schema :: schema where
  "history_schema =
     SObject [(str ''timelineSteps'', SArray SString), (str ''finalHeadline'', SString)]
             [str ''timelineSteps'', str ''finalHeadline'']"

definition history_request :: "jsstring \<Rightarrow> jsstring \<Rightarrow> jsstring \<Rightarrow> request" where
  "history_request event originalOutcome userChange =
     \<lparr>model = flash,
      contents = Template AlternateHistory
                   [Some (JStr event), Some (JStr originalOutcome), Some (JStr userChange)],
      config = ResponseSchema history_schema\<rparr>"

text \<open>The fences are removed from the text: first every \<open>```json\<close>, then every \<open>```\<close>.\<close>

definition clean_fences :: "jsstring \<Rightarrow> jsstring" where
  "clean_fences t = trim (remove_all (str ''```'') (remove_all (str ''```json'') t))"

text \<open>
  The inner \<open>try\<close> of \<open>simulateAlternateHistory\<close>; an exception in it is caught and
  logged, and the result is returned as it is then.
\<close>

definition history_image :: "json \<Rightarrow> world \<Rightarrow> json \<times> world" where
  "history_image result w =
     (case get_prop (str ''finalHeadline'') result of
        Inl e \<Rightarrow> (result, w)
      | Inr h \<Rightarrow>
          (case interpolate h of
             Inl e \<Rightarrow> (result, w)
           | Inr a1 \<Rightarrow>
               (case get_prop (str ''timelineSteps'') result of
                  Inl e \<Rightarrow> (result, w)
                | Inr steps \<Rightarrow>
                    (case elem2 steps of
                       Inl e \<Rightarrow> (result, w)
                     | Inr s \<Rightarrow>
                         (case interpolate s of
                            Inl e \<Rightarrow> (result, w)
                          | Inr a2 \<Rightarrow>
                              (case generateImage (Template AlternateHistoryImage [a1, a2])
                                      (str ''16:9'') w of
                                 (None, w') \<Rightarrow> (result, w')
                               | (Some url, w') \<Rightarrow>
                                   (case set_prop (str ''imageUrl'') (JStr url) result of
                                      Inl e \<Rightarrow> (result, w')
                                    | Inr result' \<Rightarrow> (result', w'))))))))"

definition simulateAlternateHistory ::
  "jsstring \<Rightarrow> jsstring \<Rightarrow> jsstring \<Rightarrow> world \<Rightarrow> json \<times> world" where
  "simulateAlternateHistory event originalOutcome userChange w =
     (case getClient w of
        None \<Rightarrow> (fallback, w)
      | Some ai \<Rightarrow>
          (case generateContent ai (history_request event originalOutcome userChange) w of
             (Rejected, w1) \<Rightarrow> (fallback, w1)
           | (Resolved r, w1) \<Rightarrow>
               if \<not> truthy (resp_text r) then (fallback, w1)
               else (case JSON_parse (clean_fences (the (resp_text r))) of
                       None \<Rightarrow> (fallback, w1)
                     | Some result \<Rightarrow> history_image result w1)))"

section \<open>Notions the properties are stated with\<close>

text \<open>
  These three are not functions of the module; the properties below are stated with them.
  The schemas the module declares use strings, arrays and objects with required members:
  a string schema takes a string, an array schema an array whose elements all conform,
  an object schema an object that has every required member and whose declared members
  conform.
\<close>

fun conforms :: "schema \<Rightarrow> json \<Rightarrow> bool" where
  "conforms SString v = (case v of JStr s \<Rightarrow> True | _ \<Rightarrow> False)"
| "conforms (SArray items) v =
     (case v of JArr es ps \<Rightarrow> list_all (conforms items) es | _ \<Rightarrow> False)"
| "conforms (SObject properties required) v =
     (case v of
        JObj ms \<Rightarrow>
          list_all (\<lambda>k. map_of ms k \<noteq> None) required \<and>
          list_all (\<lambda>(k, s). case map_of ms k of None \<Rightarrow> True | Some x \<Rightarrow> conforms s x)
            properties
      | _ \<Rightarrow> False)"


text \<open>
  A string begins with an enumeration marker: digits, then a full stop or a closing
  parenthesis, then a space.
\<close>

definition has_marker :: "jsstring \<Rightarrow> bool" where
  "has_marker s =
     (takeWhile is_digit s \<noteq> [] \<and>
      (case dropWhile is_digit s of
         c # sp # r \<Rightarrow> (c = cu CHR ''.'' \<or> c = cu CHR '')'') \<and> sp = 0x20
       | _ \<Rightarrow> False))"

section \<open>Worlds to run the module in\<close>

text \<open>The module as loaded: no manual key yet, nothing sent.\<close>

definition at_load :: "jsstring option \<Rightarrow> (nat \<Rightarrow> jsstring \<times> request \<Rightarrow> outcome) \<Rightarrow> world" where
  "at_load env svc =
     \<lparr>env_API_KEY = env, manualApiKey = None, service = svc, sent = [],
      second_settles_first = False\<rparr>"

text \<open>A service that rejects every call, and one that answers every call with a text.\<close>

definition unreachable :: "nat \<Rightarrow> jsstring \<times> request \<Rightarrow> outcome" where
  "unreachable n call = Rejected"

definition answers :: "jsstring \<Rightarrow> nat \<Rightarrow> jsstring \<times> request \<Rightarrow> outcome" where
  "answers t n call = Resolved \<lparr>resp_text = Some t, candidate_parts = None\<rparr>"

text \<open>A service that answers the first call with a text and rejects every later one.\<close>

definition answers_once :: "jsstring \<Rightarrow> nat \<Rightarrow> jsstring \<times> request \<Rightarrow> outcome" where
  "answers_once t n call =
     (if n = 0 then Resolved \<lparr>resp_text = Some t, candidate_parts = None\<rparr> else Rejected)"

text \<open>
  A service that answers an image request for the street photograph with an inline image
  and rejects everything else.
\<close>

definition street_only :: "nat \<Rightarrow> jsstring \<times> request \<Rightarrow> outcome" where
  "street_only n call =
     (case contents (snd call) of
        Template PhotoStreet args \<Rightarrow>
          Resolved \<lparr>resp_text = None,
                    candidate_parts = Some [\<lparr>inlineData = Some \<lparr>data = Some (str ''AAAA'')\<rparr>\<rparr>]\<rparr>
      | _ \<Rightarrow> Rejected)"

text \<open>
  A payload that conforms to the schema of the daily headline, one that conforms to the
  schema of the alternate history, and a payload wrapped in a Markdown fence: \<open>```json\<close>, a line feed, the payload, a line feed, \<open>```\<close>.
\<close>

definition headline_payload :: jsstring where
  \<open>headline_payload =
     str ''{"headline":"NATION WAKES UP","date":"15 August 1947","content":"Dispatch.","weather":"Winds of Change"}''\<close>

definition history_payload :: jsstring where
  \<open>history_payload =
     str ''{"timelineSteps":["First.","Then.","Now."],"finalHeadline":"EMPIRE ENDURES"}''\<close>



definition fenced :: "jsstring \<Rightarrow> jsstring" where
  "fenced payload = str ''```json'' @ [0x0A] @ payload @ [0x0A] @ str ''```''"


section \<open>Facts about strings, objects and the example payloads\<close>

lemma unat_cu: "unat (cu c) = of_char c"
proof -
  have "cu c = of_nat (of_char c)"
    by (simp add: cu_def of_nat_of_char)
  moreover have "(of_char c :: nat) < 2 ^ LENGTH(16)"
    by (rule less_trans [OF nat_of_char_less_256]) simp
  ultimately show ?thesis
    by (simp add: unat_of_nat)
qed

lemma cu_eq_iff [simp]: "cu c = cu d \<longleftrightarrow> c = d"
proof
  assume "cu c = cu d"
  then have "unat (cu c) = unat (cu d)" by simp
  then show "c = d" by (simp add: unat_cu)
qed simp

lemma str_eq_iff [simp]: "str a = str b \<longleftrightarrow> a = b"
proof -
  have "inj cu" by (rule injI) simp
  then show ?thesis by (simp add: str_def inj_map_eq_map)
qed

lemma str_Nil [simp]: "str [] = []"
  by (simp add: str_def)

lemma str_Cons_neq_Nil [simp]: "str (c # cs) \<noteq> []"
  by (simp add: str_def)

lemma str_append: "str a @ str b = str (a @ b)"
  by (simp add: str_def)

lemma truthy_the: "truthy x \<Longrightarrow> the x \<noteq> []"
  by (cases x) simp_all





lemma parse_headline_payload:
  "JSON_parse headline_payload =
     Some (JObj [(str ''headline'', JStr (str ''NATION WAKES UP'')),
                 (str ''date'', JStr (str ''15 August 1947'')),
                 (str ''content'', JStr (str ''Dispatch.'')),
                 (str ''weather'', JStr (str ''Winds of Change''))])"
  by code_simp

lemma headline_payload_nonempty: "headline_payload \<noteq> []"
  by (simp add: headline_payload_def)

lemma parse_fenced_headline_payload: "JSON_parse (fenced headline_payload) = None"
  by code_simp


section \<open>Facts about the operations\<close>

lemma getClient_None_iff:
  "getClient w = None \<longleftrightarrow> \<not> truthy (manualApiKey w) \<and> \<not> truthy (env_API_KEY w)"
  by (simp add: getClient_def or_else_def Let_def)

lemma getClient_setManualApiKey:
  "getClient (setManualApiKey k w) =
     (if k \<noteq> [] then Some \<lparr>apiKey = k\<rparr>
      else if truthy (env_API_KEY w) then Some \<lparr>apiKey = the (env_API_KEY w)\<rparr> else None)"
  by (simp add: getClient_def setManualApiKey_def or_else_def)

lemma no_key_reply_nonempty: "no_key_reply \<noteq> []"
  by (simp add: no_key_reply_def)

lemma smudged_reply_nonempty: "smudged_reply \<noteq> []"
  by (simp add: smudged_reply_def)

lemma fallback_shape:
  "get_prop (str ''timelineSteps'') fallback
     = Inr (Some (JArr [JStr (str ''The Time Stream is unresponsive.''),
                        JStr (str ''Please ensure the Chrono-Key (API Key) is inserted.''),
                        JStr (str ''Simulation aborted.'')] []))"
  "get_prop (str ''finalHeadline'') fallback = Inr (Some (JStr (str ''CONNECTION FAILED'')))"
  by (simp_all add: fallback_def)

lemma generateImage_sent:
  "getClient w = Some ai \<Longrightarrow>
   sent (snd (generateImage p a w)) = sent w @ [(apiKey ai, image_request p a)]"
  by (simp add: generateImage_def generateContent_def split: outcome.splits option.splits)

lemma generateImage_keys:
  "env_API_KEY (snd (generateImage p a w)) = env_API_KEY w \<and>
   manualApiKey (snd (generateImage p a w)) = manualApiKey w"
  by (simp add: generateImage_def generateContent_def split: outcome.splits option.splits)

lemma getClient_generateImage: "getClient (snd (generateImage p a w)) = getClient w"
  by (simp add: getClient_def generateImage_keys)




section \<open>Further facts: trivia lines, fences, schemas\<close>

lemma length_str: "length (str s) = length s"
  by (simp add: str_def)

lemma strip_numbering_cases:
  "(strip_numbering l = l \<and> \<not> has_marker l) \<or>
   (\<exists>ds c sp. l = ds @ c # sp @ strip_numbering l \<and> ds \<noteq> [] \<and> list_all is_digit ds \<and>
       (c = cu CHR ''.'' \<or> c = cu CHR '')'') \<and> list_all js_space sp \<and>
       (strip_numbering l = [] \<or> \<not> js_space (hd (strip_numbering l))))"
proof (cases "takeWhile is_digit l = []")
  case True
  then show ?thesis by (simp add: strip_numbering_def has_marker_def)
next
  case ds: False
  show ?thesis
  proof (cases "dropWhile is_digit l")
    case Nil
    show ?thesis unfolding strip_numbering_def has_marker_def Nil by simp
  next
    case (Cons c r)
    show ?thesis
    proof (cases "c = cu CHR ''.'' \<or> c = cu CHR '')''")
      case False
      then show ?thesis
        by (auto simp: strip_numbering_def has_marker_def Cons split: list.splits)
    next
      case True
      have s: "strip_numbering l = dropWhile js_space r"
        using ds True by (auto simp: strip_numbering_def Cons)
      have "l = takeWhile is_digit l @ dropWhile is_digit l"
        by simp
      also have "\<dots> = takeWhile is_digit l @ c # takeWhile js_space r @ dropWhile js_space r"
        by (simp add: Cons)
      finally have l: "l = takeWhile is_digit l @ c # takeWhile js_space r @ strip_numbering l"
        by (simp add: s)
      have d: "list_all is_digit (takeWhile is_digit l)"
        by (auto simp: list_all_iff dest: set_takeWhileD)
      have sp: "list_all js_space (takeWhile js_space r)"
        by (auto simp: list_all_iff dest: set_takeWhileD)
      have h: "strip_numbering l = [] \<or> \<not> js_space (hd (strip_numbering l))"
        unfolding s using hd_dropWhile [of js_space r] by blast
      show ?thesis
        using l ds d True sp h by blast
    qed
  qed
qed

lemma split_double_marker:
  "split_on 0x0A (str ''1. 2. Some fact'') = [str ''1. 2. Some fact'']"
  by code_simp

lemma strip_double_marker: "strip_numbering (str ''1. 2. Some fact'') = str ''2. Some fact''"
  by code_simp

lemma has_marker_second: "has_marker (str ''2. Some fact'')"
  by code_simp

lemma split_too_short: "split_on 0x0A (str ''Too short'') = [str ''Too short'']"
  by code_simp

lemma remove_all_prefix: "pat \<noteq> [] \<Longrightarrow> remove_all pat (pat @ s) = remove_all pat s"
  by (cases pat) simp_all

lemma remove_all_separator:
  "c \<notin> set pat \<Longrightarrow> remove_all pat (p @ c # r) = remove_all pat p @ c # remove_all pat r"
proof (induction pat p rule: remove_all.induct)
  case (1 pat)
  have "take (length pat) (c # r) \<noteq> pat" if "pat \<noteq> []"
  proof
    assume "take (length pat) (c # r) = pat"
    with that have "hd pat = c" by (cases pat) auto
    with that 1 show False by (cases pat) auto
  qed
  then show ?case by auto
next
  case (2 pat x xs)
  show ?case
  proof (cases "pat \<noteq> [] \<and> take (length pat) (x # xs) = pat")
    case True
    then have "length (take (length pat) (x # xs)) = length pat"
      by simp
    then have len: "length pat \<le> length (x # xs)"
      by (simp only: length_take)
    have "length pat - length (x # xs) = 0"
      using len by simp
    then have "take (length pat) ((x # xs) @ c # r) = take (length pat) (x # xs)"
      by (simp only: take_append take_0 append_Nil2)
    then have t: "take (length pat) ((x # xs) @ c # r) = pat"
      using True by simp
    have d: "drop (length pat - 1) (xs @ c # r) = drop (length pat - 1) xs @ c # r"
      using len by simp
    have "remove_all pat ((x # xs) @ c # r) = remove_all pat (drop (length pat - 1) (xs @ c # r))"
      using True t by simp
    also have "\<dots> = remove_all pat (drop (length pat - 1) xs) @ c # remove_all pat r"
      unfolding d using True 2 by simp
    also have "\<dots> = remove_all pat (x # xs) @ c # remove_all pat r"
      using True by simp
    finally show ?thesis .
  next
    case False
    have nt: "take (length pat) ((x # xs) @ c # r) \<noteq> pat" if ne: "pat \<noteq> []"
    proof
      assume eq: "take (length pat) ((x # xs) @ c # r) = pat"
      show False
      proof (cases "length pat \<le> length (x # xs)")
        case True
        then have "length pat - length (x # xs) = 0"
          by simp
        then have "take (length pat) ((x # xs) @ c # r) = take (length pat) (x # xs)"
          by (simp only: take_append take_0 append_Nil2)
        then have "take (length pat) (x # xs) = pat" using eq by simp
        with False ne show False by simp
      next
        case long: False
        then obtain m where m: "length pat = length (x # xs) + Suc m"
          by (metis add_Suc_right less_imp_Suc_add not_le)
        have "take (length (x # xs) + Suc m) ((x # xs) @ c # r) = (x # xs) @ c # take m r"
          by (simp only: take_append take_all_iff diff_add_inverse take_Suc_Cons) simp
        then have "c \<in> set (take (length pat) ((x # xs) @ c # r))"
          by (simp only: m) simp
        with eq 2 show False by simp
      qed
    qed
    have "remove_all pat ((x # xs) @ c # r) = x # remove_all pat (xs @ c # r)"
      using nt by auto
    also have "\<dots> = x # remove_all pat xs @ c # remove_all pat r"
      using False 2 by auto
    also have "\<dots> = remove_all pat (x # xs) @ c # remove_all pat r"
      using False by auto
    finally show ?thesis .
  qed
qed


lemma trim_leading: "js_space c \<Longrightarrow> trim (c # s) = trim s"
  by (simp add: trim_def)

lemma trim_trailing:
  assumes "js_space c"
  shows "trim (s @ [c]) = trim s"
proof (cases "\<forall>x\<in>set s. js_space x")
  case True
  then have d: "dropWhile js_space s = []"
    by simp
  from True assms have e: "dropWhile js_space (s @ [c]) = []"
    by simp
  show ?thesis
    unfolding trim_def d e ..
next
  case False
  then have "dropWhile js_space (s @ [c]) = dropWhile js_space s @ [c]"
    by (auto simp: dropWhile_append)
  with assms show ?thesis
    by (simp add: trim_def)
qed

lemma js_space_LF: "js_space 0x0A"
  by (simp add: js_space_def)

lemma LF_not_in_fence: "0x0A \<notin> set (str ''```json'')" "0x0A \<notin> set (str ''```'')"
  by (simp_all add: str_def cu_def)

lemma remove_all_fence_tail:
  "remove_all (str ''```json'') (str ''```'') = str ''```''"
  "remove_all (str ''```'') (str ''```'') = []"
  by code_simp+

text \<open>The cleaning of \<open>simulateAlternateHistory\<close> takes a fence around a payload away.\<close>

lemma clean_fences_fenced: "clean_fences (fenced payload) = clean_fences payload"
proof -
  let ?J = "str ''```json''" and ?B = "str ''```''"
  have "remove_all ?J (fenced payload) = remove_all ?J ([] @ 0x0A # (payload @ 0x0A # ?B))"
    unfolding fenced_def using remove_all_prefix [of ?J "[0x0A] @ payload @ [0x0A] @ ?B"]
    by simp
  also have "\<dots> = 0x0A # remove_all ?J (payload @ 0x0A # ?B)"
    by (simp only: remove_all_separator [OF LF_not_in_fence(1)]) simp
  also have "\<dots> = 0x0A # remove_all ?J payload @ 0x0A # ?B"
    by (simp only: remove_all_separator [OF LF_not_in_fence(1)] remove_all_fence_tail)
  finally have j: "remove_all ?J (fenced payload) = [] @ 0x0A # (remove_all ?J payload @ 0x0A # ?B)"
    by simp
  have "remove_all ?B (remove_all ?J (fenced payload))
      = 0x0A # remove_all ?B (remove_all ?J payload) @ [0x0A]"
    unfolding j
    by (simp only: remove_all_separator [OF LF_not_in_fence(2)] remove_all_fence_tail) simp
  then show ?thesis
    by (simp add: clean_fences_def trim_leading trim_trailing js_space_LF
        del: append_Cons flip: append_Cons)
qed

lemma history_payload_nonempty: "history_payload \<noteq> []"
  by (simp add: history_payload_def)

lemma fenced_nonempty: "fenced payload \<noteq> []"
  by (simp add: fenced_def)

lemma parse_clean_history_payload:
  "JSON_parse (clean_fences history_payload) =
     Some (JObj [(str ''timelineSteps'',
                  JArr [JStr (str ''First.''), JStr (str ''Then.''), JStr (str ''Now.'')] []),
                 (str ''finalHeadline'', JStr (str ''EMPIRE ENDURES''))])"
  by code_simp



lemma conforms_fallback: "conforms history_schema fallback"
  by (simp add: history_schema_def fallback_def)













section \<open>Credential resolution\<close>

text \<open>
  C1 (as stated, refuted). With \<open>ENV\<close> in the environment, the client uses \<open>ENV\<close> at load;
  after \<open>setManualApiKey\<close> with \<open>USER\<close> the client uses \<open>USER\<close>: the environment
  credential has been overridden.
\<close>

theorem env_credential_overridden:
  "getClient (at_load (Some (str ''ENV'')) unreachable) = Some \<lparr>apiKey = str ''ENV''\<rparr> \<and>
   getClient (setManualApiKey (str ''USER'') (at_load (Some (str ''ENV'')) unreachable))
     = Some \<lparr>apiKey = str ''USER''\<rparr> \<and>
   str ''USER'' \<noteq> str ''ENV''"
  by (simp add: getClient_def setManualApiKey_def or_else_def at_load_def)

text \<open>
  C1 (amended). A non-empty value passed to \<open>setManualApiKey\<close> is the credential used,
  whether or not the environment holds one; while no value has been set, the credential
  is the one of the environment, if it holds a non-empty one; calling
  \<open>setManualApiKey\<close> twice leaves only the second value stored, and the credential
  resolved afterwards is what the second call alone would give.
\<close>

theorem credential_resolution:
  "(k \<noteq> [] \<longrightarrow> getClient (setManualApiKey k w) = Some \<lparr>apiKey = k\<rparr>) \<and>
   (manualApiKey w = None \<longrightarrow>
      getClient w =
        (if truthy (env_API_KEY w) then Some \<lparr>apiKey = the (env_API_KEY w)\<rparr> else None)) \<and>
   manualApiKey (setManualApiKey k2 (setManualApiKey k1 w)) = Some k2 \<and>
   getClient (setManualApiKey k2 (setManualApiKey k1 w)) = getClient (setManualApiKey k2 w)"
  by (simp add: getClient_setManualApiKey)
     (simp add: getClient_def setManualApiKey_def or_else_def)

theorem credential_resolution_witness:
  "getClient (setManualApiKey (str ''B'') (setManualApiKey (str ''A'') (at_load None unreachable)))
     = Some \<lparr>apiKey = str ''B''\<rparr> \<and>
   getClient (at_load (Some (str ''ENV'')) unreachable) = Some \<lparr>apiKey = str ''ENV''\<rparr>"
  using credential_resolution [of "str ''B''" "at_load None unreachable" "str ''B''" "str ''A''"]
    credential_resolution [of "str ''B''" "at_load (Some (str ''ENV'')) unreachable"
                              "str ''B''" "str ''A''"]
  by (simp add: at_load_def)

section \<open>Structured results\<close>




section \<open>No credential, no network call\<close>

text \<open>
  C3. While no credential is resolved (the environment holds none and no non-empty value
  has been set), every operation returns its absent, false or fallback result and leaves
  the world as it was: no call has been added to \<open>sent\<close>.
\<close>

theorem no_credential_no_network:
  assumes "\<not> truthy (env_API_KEY w)" and "\<not> truthy (manualApiKey w)"
  shows "testApiKey w = (False, w) \<and>
         generateImage prompt aspectRatio w = (None, w) \<and>
         generateVintageMap location w = (None, w) \<and>
         generateDailyHeadline w = (JNull, w) \<and>
         chatWithMentor mentorName mentorEra history newMessage w = (no_key_reply, w) \<and>
         generateLocationTrivia location w = ([signal_lost], w) \<and>
         generateHistoricalPhotos location w = ([], w) \<and>
         simulateAlternateHistory event originalOutcome userChange w = (fallback, w)"
proof -
  have c: "getClient w = None"
    using assms by (simp add: getClient_None_iff)
  have i: "\<And>p a. generateImage p a w = (None, w)"
    by (simp add: generateImage_def c)
  show ?thesis
    by (simp add: testApiKey_def generateVintageMap_def generateDailyHeadline_def
        chatWithMentor_def generateLocationTrivia_def generateHistoricalPhotos_def
        simulateAlternateHistory_def c i)
qed

theorem no_credential_no_network_witness:
  "fst (testApiKey (setManualApiKey [] (at_load None (answers (str ''pong''))))) = False \<and>
   sent (snd (testApiKey (setManualApiKey [] (at_load None (answers (str ''pong'')))))) = [] \<and>
   generateHistoricalPhotos (str ''Pune'')
       (setManualApiKey [] (at_load None (answers (str ''pong''))))
     = ([], setManualApiKey [] (at_load None (answers (str ''pong''))))"
  using no_credential_no_network [of "setManualApiKey [] (at_load None (answers (str ''pong'')))"]
  by (simp add: at_load_def setManualApiKey_def)

section \<open>Location trivia\<close>

text \<open>
  C4 (as stated, refuted). The line \<open>1. 2. Some fact\<close> is longer than ten code units;
  one marker is removed from it, and the entry returned begins with the marker \<open>2. \<close>.
\<close>

theorem trivia_entry_with_marker:
  "fst (generateLocationTrivia (str ''Pune'')
          (at_load (Some (str ''KEY'')) (answers (str ''1. 2. Some fact''))))
     = [str ''2. Some fact''] \<and>
   has_marker (str ''2. Some fact'')"
  by (simp add: generateLocationTrivia_def at_load_def getClient_def or_else_def
      generateContent_def answers_def split_double_marker strip_double_marker has_marker_second
      length_str)

text \<open>
  C4 (amended). The returned collection has at most three entries. When the response
  carries a text that is not empty, every entry comes from a line of that text longer
  than ten code units, by one application of the numbering pattern: either the line did
  not start with digits followed by a full stop or a closing parenthesis, and the entry
  is the line and begins with no marker; or the entry is what follows those digits, that
  sign and all white space after it, so that the entry starts with no white space (it
  may start with a further marker that the line carried).
\<close>

theorem trivia_entries:
  "length (fst (generateLocationTrivia location w)) \<le> 3 \<and>
   (\<forall>ai r. getClient w = Some ai \<longrightarrow>
      fst (generateContent ai (trivia_request location) w) = Resolved r \<longrightarrow>
      truthy (resp_text r) \<longrightarrow>
      (\<forall>e \<in> set (fst (generateLocationTrivia location w)).
         \<exists>l \<in> set (split_on 0x0A (the (resp_text r))).
           length l > 10 \<and> e = strip_numbering l \<and>
           ((e = l \<and> \<not> has_marker e) \<or>
            (\<exists>ds c sp. l = ds @ c # sp @ e \<and> ds \<noteq> [] \<and> list_all is_digit ds \<and>
               (c = cu CHR ''.'' \<or> c = cu CHR '')'') \<and> list_all js_space sp \<and>
               (e = [] \<or> \<not> js_space (hd e))))))"
proof (intro conjI allI impI ballI)
  show "length (fst (generateLocationTrivia location w)) \<le> 3"
    by (simp add: generateLocationTrivia_def split: option.splits outcome.splits prod.splits)
next
  fix ai r e
  assume c: "getClient w = Some ai"
    and g: "fst (generateContent ai (trivia_request location) w) = Resolved r"
    and t: "truthy (resp_text r)"
    and e: "e \<in> set (fst (generateLocationTrivia location w))"
  obtain w1 where g': "generateContent ai (trivia_request location) w = (Resolved r, w1)"
    using g by (cases "generateContent ai (trivia_request location) w") simp
  have "fst (generateLocationTrivia location w)
      = map strip_numbering (take 3 (filter (\<lambda>line. length line > 10)
                                       (split_on 0x0A (the (resp_text r)))))"
    by (simp add: generateLocationTrivia_def c g' t)
  with e obtain l where
    l: "l \<in> set (take 3 (filter (\<lambda>line. length line > 10) (split_on 0x0A (the (resp_text r)))))"
    and el: "e = strip_numbering l"
    by auto
  from l have "l \<in> set (filter (\<lambda>line. length line > 10) (split_on 0x0A (the (resp_text r))))"
    by (rule in_set_takeD)
  then have l1: "l \<in> set (split_on 0x0A (the (resp_text r)))" and l2: "length l > 10"
    by simp_all
  show "\<exists>l \<in> set (split_on 0x0A (the (resp_text r))).
           length l > 10 \<and> e = strip_numbering l \<and>
           ((e = l \<and> \<not> has_marker e) \<or>
            (\<exists>ds c sp. l = ds @ c # sp @ e \<and> ds \<noteq> [] \<and> list_all is_digit ds \<and>
               (c = cu CHR ''.'' \<or> c = cu CHR '')'') \<and> list_all js_space sp \<and>
               (e = [] \<or> \<not> js_space (hd e))))"
    using l1 l2 el strip_numbering_cases [of l] by (intro bexI [of _ l]) auto
qed

theorem trivia_entries_witness:
  "length (fst (generateLocationTrivia (str ''Pune'')
                  (at_load (Some (str ''KEY'')) (answers (str ''1. 2. Some fact''))))) \<le> 3 \<and>
   set (fst (generateLocationTrivia (str ''Pune'')
               (at_load (Some (str ''KEY'')) (answers (str ''1. 2. Some fact'')))))
     \<subseteq> {str ''2. Some fact''}"
  using trivia_entries [of "str ''Pune''"
      "at_load (Some (str ''KEY'')) (answers (str ''1. 2. Some fact''))"]
  by (auto simp: at_load_def getClient_def or_else_def generateContent_def answers_def
      split_double_marker strip_double_marker length_str)

text \<open>
  C5 (the code departs from the claim). A response whose text has no line longer than
  ten code units gives the empty collection, where an empty text and a rejected request
  give the single fallback sentence.
\<close>

theorem trivia_empty_collection:
  "fst (generateLocationTrivia (str ''Pune'')
          (at_load (Some (str ''KEY'')) (answers (str ''Too short'')))) = [] \<and>
   fst (generateLocationTrivia (str ''Pune'') (at_load (Some (str ''KEY'')) (answers [])))
     = [records_fragmented (str ''Pune'')] \<and>
   fst (generateLocationTrivia (str ''Pune'') (at_load (Some (str ''KEY'')) unreachable))
     = [records_fragmented (str ''Pune'')]"
  by (simp add: generateLocationTrivia_def at_load_def getClient_def or_else_def
      generateContent_def answers_def unreachable_def split_too_short length_str)

section \<open>Historical photographs\<close>

text \<open>
  C6. \<open>generateHistoricalPhotos\<close> makes its two image requests (two network calls when a
  credential is resolved) and returns exactly the images that were generated: none when
  both requests fail, one when exactly one of them succeeds.
\<close>

theorem historical_photos:
  "(let first = generateImage (street_prompt location) (str ''4:3'') w;
        second = generateImage (landmark_prompt location) (str ''4:3'') (snd first);
        images = fst (generateHistoricalPhotos location w)
    in set images = set_option (fst first) \<union> set_option (fst second) \<and>
       length images
         = (if fst first = None then 0 else 1) + (if fst second = None then 0 else 1) \<and>
       (fst first = None \<and> fst second = None \<longrightarrow> images = []) \<and>
       ((fst first = None) \<noteq> (fst second = None) \<longrightarrow> length images = 1) \<and>
       (\<forall>ai. getClient w = Some ai \<longrightarrow>
          sent (snd (generateHistoricalPhotos location w))
            = sent w @ [(apiKey ai, image_request (street_prompt location) (str ''4:3'')),
                        (apiKey ai, image_request (landmark_prompt location) (str ''4:3''))]))"
proof -
  obtain u1 w1 where f: "generateImage (street_prompt location) (str ''4:3'') w = (u1, w1)"
    by (cases "generateImage (street_prompt location) (str ''4:3'') w")
  obtain u2 w2 where s: "generateImage (landmark_prompt location) (str ''4:3'') w1 = (u2, w2)"
    by (cases "generateImage (landmark_prompt location) (str ''4:3'') w1")
  have w1: "w1 = snd (generateImage (street_prompt location) (str ''4:3'') w)"
    by (simp add: f)
  have w2: "w2 = snd (generateImage (landmark_prompt location) (str ''4:3'') w1)"
    by (simp add: s)
  have sent2:
    "sent w2 = sent w @ [(apiKey ai, image_request (street_prompt location) (str ''4:3'')),
                         (apiKey ai, image_request (landmark_prompt location) (str ''4:3''))]"
    if "getClient w = Some ai" for ai
  proof -
    have "getClient w1 = Some ai"
      using that by (simp add: w1 getClient_generateImage)
    then have "sent w2
        = sent w1 @ [(apiKey ai, image_request (landmark_prompt location) (str ''4:3''))]"
      unfolding w2 by (rule generateImage_sent)
    moreover have "sent w1
        = sent w @ [(apiKey ai, image_request (street_prompt location) (str ''4:3''))]"
      unfolding w1 using that by (rule generateImage_sent)
    ultimately show ?thesis by simp
  qed
  show ?thesis
    using sent2
    by (cases u1; cases u2) (auto simp: generateHistoricalPhotos_def f s Let_def)
qed

theorem historical_photos_witness:
  "fst (generateImage (street_prompt (str ''Pune'')) (str ''4:3'')
          (at_load (Some (str ''KEY'')) street_only))
     = Some (str ''data:image/png;base64,AAAA'') \<and>
   fst (generateImage (landmark_prompt (str ''Pune'')) (str ''4:3'')
          (snd (generateImage (street_prompt (str ''Pune'')) (str ''4:3'')
                  (at_load (Some (str ''KEY'')) street_only))))
     = None \<and>
   length (fst (generateHistoricalPhotos (str ''Pune'')
                  (at_load (Some (str ''KEY'')) street_only))) = 1 \<and>
   length (sent (snd (generateHistoricalPhotos (str ''Pune'')
                        (at_load (Some (str ''KEY'')) street_only)))) = 2"
  using historical_photos [of "str ''Pune''" "at_load (Some (str ''KEY'')) street_only"]
  by (simp add: Let_def at_load_def generateImage_def getClient_def or_else_def
      generateContent_def street_only_def image_request_def street_prompt_def
      landmark_prompt_def str_append)

section \<open>Daily headline\<close>




section \<open>Alternate history: the fallback\<close>

text \<open>
  C8. When no client can be made or the request to the service is rejected,
  \<open>simulateAlternateHistory\<close> returns the fixed fallback, which has exactly three
  timeline steps and a final headline that is not empty; the rejection is a branch of
  the function, so nothing is thrown and the result is not \<open>null\<close>.
\<close>

theorem alternate_history_fallback:
  assumes "getClient w = None \<or>
           (\<exists>ai. getClient w = Some ai \<and>
                 fst (generateContent ai (history_request event originalOutcome userChange) w)
                   = Rejected)"
  shows "fst (simulateAlternateHistory event originalOutcome userChange w) = fallback \<and>
         fallback \<noteq> JNull \<and>
         (\<exists>steps headline.
            get_prop (str ''timelineSteps'') fallback = Inr (Some (JArr steps [])) \<and>
            length steps = 3 \<and>
            get_prop (str ''finalHeadline'') fallback = Inr (Some (JStr headline)) \<and>
            headline \<noteq> [])"
  using assms
  by (auto simp: simulateAlternateHistory_def fallback_shape
      split: option.splits outcome.splits prod.splits)
     (simp add: fallback_def)+

theorem alternate_history_fallback_witness:
  "getClient (at_load (Some (str ''KEY'')) unreachable) = Some \<lparr>apiKey = str ''KEY''\<rparr> \<and>
   fst (generateContent \<lparr>apiKey = str ''KEY''\<rparr>
          (history_request (str ''Partition'') (str ''1947'') (str ''none''))
          (at_load (Some (str ''KEY'')) unreachable)) = Rejected \<and>
   fst (simulateAlternateHistory (str ''Partition'') (str ''1947'') (str ''none'')
          (at_load (Some (str ''KEY'')) unreachable)) = fallback"
  using alternate_history_fallback [of "at_load (Some (str ''KEY'')) unreachable"
      "str ''Partition''" "str ''1947''" "str ''none''"]
  by (simp add: at_load_def getClient_def or_else_def generateContent_def unreachable_def)

section \<open>Fences around a payload\<close>

text \<open>
  C9 (the code departs from the claim). \<open>generateDailyHeadline\<close> parses the text as it
  comes: the bare payload gives the article, the same payload in a fence gives \<open>null\<close>.
  \<open>simulateAlternateHistory\<close> cleans the fences first and gives the same result for both.
\<close>

theorem daily_headline_keeps_fences:
  "fst (generateDailyHeadline (at_load (Some (str ''KEY'')) (answers_once headline_payload)))
     = JObj [(str ''headline'', JStr (str ''NATION WAKES UP'')),
             (str ''date'', JStr (str ''15 August 1947'')),
             (str ''content'', JStr (str ''Dispatch.'')),
             (str ''weather'', JStr (str ''Winds of Change'')),
             (str ''imageUrl'', JStr fallbackImage)] \<and>
   fst (generateDailyHeadline
          (at_load (Some (str ''KEY'')) (answers_once (fenced headline_payload)))) = JNull \<and>
   fst (simulateAlternateHistory (str ''Partition'') (str ''1947'') (str ''none'')
          (at_load (Some (str ''KEY'')) (answers_once history_payload)))
     = JObj [(str ''timelineSteps'',
              JArr [JStr (str ''First.''), JStr (str ''Then.''), JStr (str ''Now.'')] []),
             (str ''finalHeadline'', JStr (str ''EMPIRE ENDURES''))] \<and>
   fst (simulateAlternateHistory (str ''Partition'') (str ''1947'') (str ''none'')
          (at_load (Some (str ''KEY'')) (answers_once (fenced history_payload))))
     = JObj [(str ''timelineSteps'',
              JArr [JStr (str ''First.''), JStr (str ''Then.''), JStr (str ''Now.'')] []),
             (str ''finalHeadline'', JStr (str ''EMPIRE ENDURES''))]"
  by (simp add: generateDailyHeadline_def simulateAlternateHistory_def at_load_def
      getClient_def or_else_def generateContent_def answers_once_def
      headline_payload_nonempty history_payload_nonempty fenced_nonempty
      parse_headline_payload parse_fenced_headline_payload
      clean_fences_fenced parse_clean_history_payload
      headline_image_def history_image_def interpolate_def generateImage_def)

section \<open>Mentor chat\<close>

text \<open>
  C10. For every persona name, era, history and new message, \<open>chatWithMentor\<close> returns a
  string that is not empty: the fixed no-credential string when no credential is
  resolved, the fixed failure string when the request is rejected, and, when the request
  succeeds, the text of the model, or \<open>...\<close> when that text is absent or empty. The
  request is the only step that can throw, and its rejection is a branch of the function.
\<close>

theorem chatWithMentor_reply:
  "fst (chatWithMentor mentorName mentorEra history newMessage w) \<noteq> [] \<and>
   (getClient w = None \<longrightarrow>
      chatWithMentor mentorName mentorEra history newMessage w = (no_key_reply, w)) \<and>
   (\<forall>ai. getClient w = Some ai \<longrightarrow>
      fst (generateContent ai (mentor_request mentorName mentorEra history newMessage) w)
        = Rejected \<longrightarrow>
      fst (chatWithMentor mentorName mentorEra history newMessage w) = smudged_reply) \<and>
   (\<forall>ai r. getClient w = Some ai \<longrightarrow>
      fst (generateContent ai (mentor_request mentorName mentorEra history newMessage) w)
        = Resolved r \<longrightarrow>
      fst (chatWithMentor mentorName mentorEra history newMessage w)
        = (if truthy (resp_text r) then the (resp_text r) else str ''...''))"
  by (auto simp: chatWithMentor_def or_else_def no_key_reply_nonempty smudged_reply_nonempty
      truthy_the split: option.splits outcome.splits prod.splits)

theorem chatWithMentor_reply_witness:
  "fst (chatWithMentor (str ''Gandhi'') (str ''1930'') [] (str ''Hello'')
          (at_load None unreachable)) = no_key_reply \<and>
   fst (chatWithMentor (str ''Gandhi'') (str ''1930'') [] (str ''Hello'')
          (at_load (Some (str ''KEY'')) unreachable)) = smudged_reply \<and>
   fst (chatWithMentor (str ''Gandhi'') (str ''1930'') [] (str ''Hello'')
          (at_load (Some (str ''KEY'')) (answers []))) = str ''...''"
  using
    chatWithMentor_reply [of "str ''Gandhi''" "str ''1930''" "[]" "str ''Hello''"
      "at_load None unreachable"]
    chatWithMentor_reply [of "str ''Gandhi''" "str ''1930''" "[]" "str ''Hello''"
      "at_load (Some (str ''KEY'')) unreachable"]
    chatWithMentor_reply [of "str ''Gandhi''" "str ''1930''" "[]" "str ''Hello''"
      "at_load (Some (str ''KEY'')) (answers [])"]
  by (simp add: at_load_def getClient_def or_else_def generateContent_def unreachable_def
      answers_def)

end
